theory Spec2Isabelle
  imports Complex_Main "HOL-Library.Word"
begin

section \<open>Data model of \<open>stream_breathing_amp_multi.py\<close>\<close>

text \<open>
  A BLE payload is a Python \<open>bytearray\<close>: a list of bytes. Python integers are
  unbounded, so the decoded values and the sample counter are \<open>int\<close>.
\<close>

type_synonym byte = "8 word"
type_synonym bytes = "byte list"

text \<open>
  Exceptions. \<open>KeyboardInterrupt\<close> derives from \<open>BaseException\<close> only, so an
  \<open>except Exception\<close> clause lets it pass; every other constructor is a subclass of
  \<open>Exception\<close>. \<open>OtherError\<close> stands for whatever \<open>Exception\<close> one of the external
  libraries (bleak, pylsl) raises.
\<close>

datatype exn =
    KeyboardInterrupt
  | NameError string
  | StructError string
  | OverflowError string
  | OtherError string

fun is_Exception :: "exn \<Rightarrow> bool" where
  "is_Exception KeyboardInterrupt = False"
| "is_Exception (NameError m) = True"
| "is_Exception (StructError m) = True"
| "is_Exception (OverflowError m) = True"
| "is_Exception (OtherError m) = True"

text \<open>
  What the program writes to standard output, one entry per \<open>print\<close>. The two lines
  that format numbers keep the numbers: \<open>Sample_line\<close> is the verbose line of the
  handler, \<open>Rate_line\<close> the diagnostic line of the wait loop. The rate is a Python
  float: a double, given here by its exact value, a rational.
\<close>

datatype line =
    Text string
  | Exn_line exn
  | Sample_line int int
  | Rate_line rat

text \<open>The arguments of \<open>StreamInfo(name, type, channel_count, nominal_srate,
  channel_format, source_id)\<close>.\<close>

record stream_info =
  si_name :: string
  si_type :: string
  channel_count :: nat
  nominal_srate :: nat
  channel_format :: string
  source_id :: string

text \<open>Calls made on the \<open>BleakClient\<close>, in the order they are made.\<close>

datatype call =
    Connect
  | Start_notify string
  | Stop_notify string
  | Disconnect

text \<open>
  Everything outside the \<open>BBeltBleak\<close> object that the program acts on:
  standard output, the outlets created with \<open>StreamOutlet\<close>, the samples handed to
  \<open>push_sample\<close>, the calls made on the BLE client, the exceptions that left the
  notification handler (they go back to the transport that called it, not to \<open>_main\<close>),
  and whether \<open>del outlet_bamp\<close> has run.
\<close>

record world =
  stdout :: "line list"
  created :: "stream_info list"
  pushed :: "int list list"
  calls :: "call list"
  unhandled :: "exn list"
  outlet_deleted :: bool

definition py_print :: "line \<Rightarrow> world \<Rightarrow> world" where
  "py_print l w = w\<lparr>stdout := stdout w @ [l]\<rparr>"

definition client_call :: "call \<Rightarrow> world \<Rightarrow> world" where
  "client_call c w = w\<lparr>calls := calls w @ [c]\<rparr>"

text \<open>The namespace returned by \<open>parser.parse_args()\<close>.\<close>

record args =
  mac_address :: string
  arg_name :: string
  arg_type :: string
  verbose :: bool

text \<open>
  The fields of a \<open>BBeltBleak\<close> object. A callback receives the list of samples and may
  act on the world or raise. The field \<open>client\<close> is the external BLE client; its
  behaviour is the parameter \<open>transport\<close> below.
\<close>

record bbelt =
  bamp :: int
  bIR :: int
  addr :: string
  char_id :: string
  samples_in :: int
  callback :: "(int list \<Rightarrow> world \<Rightarrow> exn option \<times> world) option"

text \<open>\<open>BBeltBleak.__init__\<close>: the argument \<open>verbose\<close> is accepted and not stored.\<close>

definition init :: "string \<Rightarrow> string \<Rightarrow> bool \<Rightarrow>
    (int list \<Rightarrow> world \<Rightarrow> exn option \<times> world) option \<Rightarrow> bbelt" where
  "init a c v cb =
     \<lparr>bamp = 0, bIR = 0, addr = a, char_id = c, samples_in = 0, callback = cb\<rparr>"

section \<open>Decoding\<close>

text \<open>Python's \<open>data[i:j]\<close> for \<open>0 \<le> i \<le> j\<close>: the slice is cut at the end of the data.\<close>

definition slice :: "'a list \<Rightarrow> nat \<Rightarrow> nat \<Rightarrow> 'a list" where
  "slice xs i j = take (j - i) (drop i xs)"

text \<open>
  \<open>struct.unpack('>L', b)[0]\<close>: an unsigned 32-bit integer, most significant byte first;
  \<open>struct.error\<close> unless the buffer has exactly four bytes.
\<close>

definition unpack_L :: "bytes \<Rightarrow> exn + int" where
  "unpack_L b =
     (if length b = 4 then Inr (foldl (\<lambda>acc x. acc * 256 + uint x) 0 b)
      else Inl (StructError ''unpack requires a buffer of 4 bytes''))"

text \<open>
  \<open>BBeltBleak._ble_handler\<close>, lines 47 to 52: the updates of the object. The fields
  assigned before an exception keep their new values.
\<close>

definition update_values :: "bbelt \<Rightarrow> bytes \<Rightarrow> exn option \<times> bbelt" where
  "update_values self data =
     (case unpack_L (slice data 0 4) of
        Inl e \<Rightarrow> (Some e, self)
      | Inr v \<Rightarrow>
          let self1 = self\<lparr>bamp := v\<rparr> in
          if 8 \<le> length data then
            (case unpack_L (slice data 4 8) of
               Inl e \<Rightarrow> (Some e, self1)
             | Inr u \<Rightarrow>
                 let self2 = self1\<lparr>bIR := u\<rparr>
                 in (None, self2\<lparr>samples_in := samples_in self2 + 1\<rparr>))
          else (None, self1\<lparr>samples_in := samples_in self1 + 1\<rparr>))"

text \<open>
  \<open>BBeltBleak._ble_handler\<close>. The first argument is the module global \<open>args\<close>: it is
  bound by the \<open>__main__\<close> block only, and reading it while unbound raises \<open>NameError\<close>.
  The argument \<open>sender\<close> is not used. The result is the exception that leaves the
  handler, if any, the object and the world.
\<close>

text \<open>The list \<open>[self.bamp, self.bIR]\<close> of line 58.\<close>

definition sample :: "bbelt \<Rightarrow> int list" where
  "sample self = [bamp self, bIR self]"

definition ble_handler ::
  "args option \<Rightarrow> bbelt \<Rightarrow> bytes \<Rightarrow> world \<Rightarrow> exn option \<times> bbelt \<times> world" where
  "ble_handler g self data w =
     (if 4 \<le> length data then
        (case update_values self data of
           (Some e, self') \<Rightarrow> (Some e, self', w)
         | (None, self') \<Rightarrow>
             (case g of
                None \<Rightarrow> (Some (NameError ''args''), self', w)
              | Some a \<Rightarrow>
                  let w1 = (if verbose a
                            then py_print (Sample_line (bamp self') (bIR self')) w else w)
                  in (case callback self' of
                        None \<Rightarrow> (None, self', w1)
                      | Some cb \<Rightarrow>
                          (case cb (sample self') w1 of
                             (r, w2) \<Rightarrow> (r, self', w2)))))
      else (None, self, w))"

text \<open>
  The words of the specification: the big-endian unsigned 32-bit integer of
  \<open>bytes[i:i+4]\<close>.
\<close>

definition be_uint32 :: "bytes \<Rightarrow> nat \<Rightarrow> int" where
  "be_uint32 data i =
     uint (data ! i) * 16777216 + uint (data ! (i + 1)) * 65536
       + uint (data ! (i + 2)) * 256 + uint (data ! (i + 3))"

text \<open>
  The components of a result: what was raised (or the status), the object, the world.
\<close>

abbreviation raised :: "'a \<times> bbelt \<times> world \<Rightarrow> 'a" where
  "raised r \<equiv> fst r"

abbreviation object :: "'a \<times> bbelt \<times> world \<Rightarrow> bbelt" where
  "object r \<equiv> fst (snd r)"

abbreviation world_of :: "'a \<times> bbelt \<times> world \<Rightarrow> world" where
  "world_of r \<equiv> snd (snd r)"

section \<open>The script\<close>

text \<open>
  The outcomes of the calls into the two external libraries are parameters of the model:
  \<open>None\<close> when the call returns, \<open>Some e\<close> when it raises \<open>e\<close>. The two flags are
  the values of \<open>client.is_connected\<close> read before and after \<open>client.connect()\<close>.
\<close>

record externals =
  is_connected_before :: bool
  is_connected_after :: bool
  connect_outcome :: "exn option"
  start_notify_outcome :: "exn option"
  stop_notify_outcome :: "exn option"
  disconnect_outcome :: "exn option"
  push_sample_outcome :: "int list \<Rightarrow> exn option"

text \<open>\<open>SAMPLINGRATE\<close>, line 14.\<close>

definition SAMPLINGRATE :: nat where
  "SAMPLINGRATE = 12"

text \<open>The callback \<open>stream\<close> of the \<open>__main__\<close> block: one \<open>push_sample\<close> call.\<close>

definition stream :: "externals \<Rightarrow> int list \<Rightarrow> world \<Rightarrow> exn option \<times> world" where
  "stream ext data w = (push_sample_outcome ext data, w\<lparr>pushed := pushed w @ [data]\<rparr>)"

section \<open>The rate: \<open>samples_in/5.\<close>\<close>

text \<open>
  Line 84 divides a Python integer by the float \<open>5.\<close>: the integer is converted to a
  double and the two doubles are divided. Both steps round to the nearest double, ties to
  even, and the conversion raises \<open>OverflowError\<close> when the integer is too large.
\<close>

text \<open>\<open>int.bit_length\<close> of a natural number.\<close>

fun bit_length :: "nat \<Rightarrow> nat" where
  "bit_length n = (if n = 0 then 0 else Suc (bit_length (n div 2)))"

declare bit_length.simps [simp del]

definition pow2 :: "int \<Rightarrow> rat" where
  "pow2 k = (if 0 \<le> k then 2 ^ nat k else 1 / 2 ^ nat (- k))"

text \<open>The exponent of a positive rational: the \<open>e\<close> with \<open>2 ^ e \<le> x < 2 ^ (e + 1)\<close>.\<close>

definition ilog2 :: "rat \<Rightarrow> int" where
  "ilog2 x =
     (if 1 \<le> x then int (bit_length (nat \<lfloor>x\<rfloor>)) - 1
      else - int (bit_length (nat (\<lceil>1 / x\<rceil> - 1))))"

definition round_half_even :: "rat \<Rightarrow> int" where
  "round_half_even x =
     (let f = \<lfloor>x\<rfloor>; d = x - of_int f
      in if d < 1 / 2 then f else if 1 / 2 < d then f + 1 else if even f then f else f + 1)"

text \<open>
  The nearest number with a significand of 53 bits, ties to even: the nearest double, for
  a value in the range of the normal doubles.
\<close>

definition round53 :: "rat \<Rightarrow> rat" where
  "round53 x =
     (if x = 0 then 0
      else let q = pow2 (ilog2 \<bar>x\<bar> - 52)
           in sgn x * of_int (round_half_even (\<bar>x\<bar> / q)) * q)"

text \<open>
  The conversion of a Python integer to a float. The largest double is
  \<open>2 ^ 1024 - 2 ^ 971\<close>; an integer from \<open>2 ^ 1024 - 2 ^ 970\<close> on, in magnitude, would
  round to \<open>2 ^ 1024\<close>, and the conversion raises \<open>OverflowError\<close>.
\<close>

definition float_of_int :: "int \<Rightarrow> exn + rat" where
  "float_of_int n =
     (if 2 ^ 1024 - 2 ^ 970 \<le> \<bar>n\<bar>
      then Inl (OverflowError ''int too large to convert to float'')
      else Inr (round53 (of_int n)))"

text \<open>
  \<open>n/5.\<close> for a Python integer \<open>n\<close>. The converted integer is zero or at least 1 in
  magnitude, so its fifth is zero or a normal double: the division neither overflows
  nor underflows.
\<close>

definition rate :: "int \<Rightarrow> exn + rat" where
  "rate n = (case float_of_int n of Inl e \<Rightarrow> Inl e | Inr x \<Rightarrow> Inr (round53 (x / 5)))"

section \<open>The session\<close>

text \<open>
  What reaches the program while it waits in the loop of \<open>_main\<close>: a notification
  delivered by the transport, the end of a five-second sleep, or a signal. The script
  installs \<open>signal.default_int_handler\<close> for both SIGINT and SIGTERM, so either one
  raises \<open>KeyboardInterrupt\<close>.
\<close>

datatype signal = SIGINT | SIGTERM

datatype event =
    Notification bytes
  | Tick
  | Signal signal

text \<open>
  How a piece of the program stands when the events at hand are used up: still waiting
  in the loop, returned, or left by an exception.
\<close>

datatype status =
    Running
  | Returned
  | Raised exn

text \<open>The clause \<open>except Exception as e: print(e)\<close>.\<close>

definition except_Exception :: "exn \<Rightarrow> world \<Rightarrow> exn option \<times> world" where
  "except_Exception e w =
     (if is_Exception e then (None, py_print (Exn_line e) w) else (Some e, w))"

text \<open>\<open>BBeltBleak.connect\<close>.\<close>

definition connect :: "externals \<Rightarrow> bbelt \<Rightarrow> world \<Rightarrow> exn option \<times> world" where
  "connect ext self w =
     (if \<not> is_connected_before ext then
        let w1 = py_print (Text (''Connecting to '' @ addr self)) w;
            w2 = client_call Connect w1
        in (case connect_outcome ext of
              None \<Rightarrow>
                (None, py_print (Text (''Connected: '' @
                   (if is_connected_after ext then ''True'' else ''False''))) w2)
            | Some e \<Rightarrow> except_Exception e w2)
      else (None, w))"

text \<open>
  One round of the loop of \<open>_main\<close> after the sleep, lines 84 and 85: the rate is
  computed and printed, then the counter is reset. When the division raises, nothing is
  printed and the counter keeps its value.
\<close>

definition tick :: "bbelt \<Rightarrow> world \<Rightarrow> exn + bbelt \<times> world" where
  "tick self w =
     (case rate (samples_in self) of
        Inl e \<Rightarrow> Inl e
      | Inr r \<Rightarrow> Inr (self\<lparr>samples_in := 0\<rparr>, py_print (Rate_line r) w))"

text \<open>
  The loop of \<open>_main\<close>, lines 81 to 85, driven by the events. It is the transport that
  calls the handler, from the event loop: an \<open>Exception\<close> that leaves the handler is
  reported there and the loop goes on; anything else ends the event loop. An exception
  raised at line 84 leaves the loop. With no event left the loop is still waiting.
\<close>

fun loop :: "args option \<Rightarrow> event list \<Rightarrow> bbelt \<Rightarrow> world \<Rightarrow> status \<times> bbelt \<times> world" where
  "loop g [] self w = (Running, self, w)"
| "loop g (Notification data # evs) self w =
     (case ble_handler g self data w of
        (None, self', w') \<Rightarrow> loop g evs self' w'
      | (Some e, self', w') \<Rightarrow>
          if is_Exception e then loop g evs self' (w'\<lparr>unhandled := unhandled w' @ [e]\<rparr>)
          else (Raised e, self', w'))"
| "loop g (Tick # evs) self w =
     (case tick self w of
        Inl e \<Rightarrow> (Raised e, self, w)
      | Inr (self', w') \<Rightarrow> loop g evs self' w')"
| "loop g (Signal sg # evs) self w = (Raised KeyboardInterrupt, self, w)"

text \<open>\<open>BBeltBleak._main\<close>.\<close>

definition priv_main ::
  "externals \<Rightarrow> args option \<Rightarrow> event list \<Rightarrow> bbelt \<Rightarrow> world \<Rightarrow> status \<times> bbelt \<times> world" where
  "priv_main ext g evs self w =
     (case connect ext self w of
        (Some e, w1) \<Rightarrow> (Raised e, self, w1)
      | (None, w1) \<Rightarrow>
          let w2 = py_print (Text ''start notify'') w1;
              w3 = client_call (Start_notify (char_id self)) w2
          in (case start_notify_outcome ext of
                Some e \<Rightarrow>
                  (case except_Exception e w3 of
                     (None, w4) \<Rightarrow> (Returned, self, w4)
                   | (Some e', w4) \<Rightarrow> (Raised e', self, w4))
              | None \<Rightarrow>
                  let w4 = py_print (Text ''notify started'') w3;
                      w5 = py_print (Text ''launch the loop'') w4
                  in (case loop g evs self w5 of
                        (Raised e, self', w6) \<Rightarrow>
                          (case except_Exception e w6 of
                             (None, w7) \<Rightarrow> (Returned, self', w7)
                           | (Some e', w7) \<Rightarrow> (Raised e', self', w7))
                      | r \<Rightarrow> r)))"

text \<open>\<open>BBeltBleak.launch\<close>: \<open>asyncio.run(self._main())\<close>.\<close>

definition launch ::
  "externals \<Rightarrow> args option \<Rightarrow> event list \<Rightarrow> bbelt \<Rightarrow> world \<Rightarrow> status \<times> bbelt \<times> world" where
  "launch ext g evs self w = priv_main ext g evs self w"

text \<open>\<open>BBeltBleak._terminate\<close>: two awaits in a row.\<close>

definition priv_terminate :: "externals \<Rightarrow> bbelt \<Rightarrow> world \<Rightarrow> exn option \<times> world" where
  "priv_terminate ext self w =
     (let w1 = client_call (Stop_notify (char_id self)) w
      in (case stop_notify_outcome ext of
            Some e \<Rightarrow> (Some e, w1)
          | None \<Rightarrow> (disconnect_outcome ext, client_call Disconnect w1)))"

text \<open>\<open>BBeltBleak.terminate\<close>.\<close>

definition terminate :: "externals \<Rightarrow> bbelt \<Rightarrow> world \<Rightarrow> exn option \<times> world" where
  "terminate ext self w =
     (case priv_terminate ext self w of
        (None, w1) \<Rightarrow> (None, w1)
      | (Some e, w1) \<Rightarrow> except_Exception e w1)"

text \<open>
  The \<open>finally\<close> block of the script, lines 145 to 149. \<open>pending\<close> is the exception
  that the \<open>try\<close> statement has not handled and raises again after the block.
\<close>

definition finally_block :: "externals \<Rightarrow> bbelt \<Rightarrow> exn option \<Rightarrow> world \<Rightarrow> status \<times> world" where
  "finally_block ext bb pending w =
     (case terminate ext bb w of
        (Some e, w1) \<Rightarrow> (Raised e, w1)
      | (None, w1) \<Rightarrow>
          let w2 = w1\<lparr>outlet_deleted := True\<rparr>;
              w3 = py_print (Text ''terminated'') w2
          in (case pending of None \<Rightarrow> (Returned, w3) | Some e \<Rightarrow> (Raised e, w3)))"

definition world0 :: world where
  "world0 = \<lparr>stdout = [], created = [], pushed = [], calls = [], unhandled = [],
              outlet_deleted = False\<rparr>"

text \<open>The \<open>StreamInfo\<close> of line 129.\<close>

definition info_bamp :: "args \<Rightarrow> stream_info" where
  "info_bamp a =
     \<lparr>si_name = arg_name a, si_type = arg_type a, channel_count = 2,
      nominal_srate = SAMPLINGRATE, channel_format = ''float32'',
      source_id = arg_name a @ ''_'' @ arg_type a @ ''_'' @ mac_address a\<rparr>"

text \<open>The \<open>__main__\<close> block from line 125 on, for the parsed arguments \<open>a\<close>.\<close>

definition script :: "args \<Rightarrow> externals \<Rightarrow> event list \<Rightarrow> status \<times> world" where
  "script a ext evs =
     (let w1 = world0\<lparr>created := created world0 @ [info_bamp a]\<rparr>;
          bbelt = init (mac_address a) ''0000fed1-0000-1000-8000-00805f9b34fb'' (verbose a)
                    (Some (stream ext))
      in (case launch ext (Some a) evs bbelt w1 of
            (Running, bb, w2) \<Rightarrow> (Running, w2)
          | (Returned, bb, w2) \<Rightarrow> finally_block ext bb None w2
          | (Raised e, bb, w2) \<Rightarrow>
              if e = KeyboardInterrupt
              then finally_block ext bb None
                     (py_print (Text ''Catching Ctrl-C or SIGTERM, bye!'') w2)
              else finally_block ext bb (Some e) w2))"

section \<open>The history of a decoder, in the words of the specification\<close>

text \<open>The payloads among the events, in the order of their delivery.\<close>

fun payloads :: "event list \<Rightarrow> bytes list" where
  "payloads [] = []"
| "payloads (Notification data # evs) = data # payloads evs"
| "payloads (Tick # evs) = payloads evs"
| "payloads (Signal sg # evs) = payloads evs"

text \<open>
  The last secondary value observed in a payload of length at least 8, or \<open>s0\<close> if
  there is none.
\<close>

definition last_secondary :: "int \<Rightarrow> bytes list \<Rightarrow> int" where
  "last_secondary s0 ds =
     (let long = filter (\<lambda>d. 8 \<le> length d) ds
      in if long = [] then s0 else be_uint32 (last long) 4)"


text \<open>
  The samples of the payloads, one for each payload of at least 4 bytes, in order; \<open>s\<close>
  is the secondary value before the first payload.
\<close>

fun expected_samples :: "int \<Rightarrow> bytes list \<Rightarrow> int list list" where
  "expected_samples s [] = []"
| "expected_samples s (d # ds) =
     (if 4 \<le> length d
      then [be_uint32 d 0, if 8 \<le> length d then be_uint32 d 4 else s]
             # expected_samples (if 8 \<le> length d then be_uint32 d 4 else s) ds
      else expected_samples s ds)"

fun is_Stop_notify :: "call \<Rightarrow> bool" where
  "is_Stop_notify (Stop_notify c) = True"
| "is_Stop_notify c = False"

section \<open>Concrete inputs\<close>

text \<open>The defaults of the command line.\<close>

definition default_args :: args where
  "default_args = \<lparr>mac_address = ''FB:88:11:1E:90:F3'', arg_name = ''ullo_bb'',
     arg_type = ''breathing_amp'', verbose = False\<rparr>"

text \<open>Libraries whose calls all return.\<close>

definition ext_ok :: externals where
  "ext_ok = \<lparr>is_connected_before = False, is_connected_after = True,
     connect_outcome = None, start_notify_outcome = None, stop_notify_outcome = None,
     disconnect_outcome = None, push_sample_outcome = (\<lambda>x. None)\<rparr>"

text \<open>A transport whose \<open>stop_notify\<close> fails.\<close>

definition ext_stop_fails :: externals where
  "ext_stop_fails = ext_ok\<lparr>stop_notify_outcome := Some (OtherError ''not connected'')\<rparr>"

text \<open>A second signal arrives while \<open>stop_notify\<close> is awaited.\<close>

definition ext_interrupted :: externals where
  "ext_interrupted = ext_ok\<lparr>stop_notify_outcome := Some KeyboardInterrupt\<rparr>"

text \<open>An outlet whose \<open>push_sample\<close> fails.\<close>

definition ext_push_fails :: externals where
  "ext_push_fails = ext_ok\<lparr>push_sample_outcome := (\<lambda>x. Some (OtherError ''push failed''))\<rparr>"

definition failing_bbelt :: bbelt where
  "failing_bbelt = init ''FB:88:11:1E:90:F3'' ''0000fed1-0000-1000-8000-00805f9b34fb'' False
     (Some (stream ext_push_fails))"

text \<open>The object the script builds, and one built with the default arguments of
  \<open>__init__\<close> (no callback).\<close>

definition script_bbelt :: bbelt where
  "script_bbelt = init ''FB:88:11:1E:90:F3'' ''0000fed1-0000-1000-8000-00805f9b34fb'' False
     (Some (stream ext_ok))"

definition plain_bbelt :: bbelt where
  "plain_bbelt = init ''FB:88:11:1E:90:F3'' ''0000fed1-0000-1000-8000-00805f9b34fb'' False None"

section \<open>Integers up to \<open>2 ^ 53\<close> are converted exactly\<close>

lemma bit_length_bounds:
  "0 < n \<Longrightarrow> 2 ^ (bit_length n - 1) \<le> n \<and> n < 2 ^ bit_length n"
proof (induction n rule: bit_length.induct)
  case (1 n)
  show ?case
  proof (cases "n div 2 = 0")
    case True
    with "1.prems" have "n = 1" by presburger
    then show ?thesis by (simp add: bit_length.simps)
  next
    case False
    then have pos: "0 < n div 2" by simp
    define b where "b = bit_length (n div 2)"
    have ih: "2 ^ (b - 1) \<le> n div 2 \<and> n div 2 < 2 ^ b"
      using "1.IH" "1.prems" pos by (simp add: b_def)
    have bl: "bit_length n = Suc b"
      using "1.prems" by (simp add: bit_length.simps [of n] b_def)
    have bpos: "0 < b"
      using pos by (simp add: b_def bit_length.simps [of "n div 2"])
    then have p: "(2::nat) ^ b = 2 * 2 ^ (b - 1)"
      by (cases b) simp_all
    have "2 ^ b \<le> n"
      using ih p by presburger
    moreover have "n < 2 ^ Suc b"
      using ih by (simp; presburger)
    ultimately show ?thesis
      by (simp add: bl)
  qed
qed

lemma round_half_even_of_int: "round_half_even (of_int k) = k"
  by (simp add: round_half_even_def Let_def)

lemma round53_of_int:
  assumes "0 < n" and "n \<le> 2 ^ 53"
  shows "round53 (of_int n) = of_int n"
proof -
  define b where "b = bit_length (nat n)"
  have bb: "2 ^ (b - 1) \<le> nat n \<and> nat n < 2 ^ b"
    using bit_length_bounds [of "nat n"] assms(1) by (simp add: b_def)
  have bpos: "0 < b"
    using assms(1) by (simp add: b_def bit_length.simps [of "nat n"])
  have il: "ilog2 (rat_of_int n) = int b - 1"
    using assms(1) by (simp add: ilog2_def b_def)
  have p53: "(2::nat) ^ (b - 1) \<le> 2 ^ 53"
  proof -
    have "int (2 ^ (b - 1)) \<le> n" using bb assms(1) by linarith
    with assms(2) have "int (2 ^ (b - 1)) \<le> 2 ^ 53" by linarith
    then show ?thesis by (metis of_nat_le_iff of_nat_numeral of_nat_power)
  qed
  have ble: "b - 1 \<le> 53"
    by (rule power_le_imp_le_exp [OF _ p53]) simp
  show ?thesis
  proof (cases "b - 1 \<le> 52")
    case True
    define k where "k = 52 - (b - 1)"
    have e: "int b - 53 = - int k"
      using True bpos by (simp add: k_def)
    have q: "pow2 (int b - 53) = 1 / 2 ^ k"
      by (cases "k = 0") (simp_all add: pow2_def e)
    have "\<bar>rat_of_int n\<bar> / (1 / 2 ^ k) = of_int (n * 2 ^ k)"
      using assms(1) by simp
    then have "round_half_even (\<bar>rat_of_int n\<bar> / (1 / 2 ^ k)) = n * 2 ^ k"
      by (simp only: round_half_even_of_int)
    then show ?thesis
      using assms(1) by (simp add: round53_def il q Let_def)
  next
    case False
    with ble have b54: "b - 1 = 53" by simp
    have "(2::nat) ^ 53 \<le> nat n"
      using bb unfolding b54 by (rule conjunct1)
    then have "int (2 ^ 53) \<le> n"
      using assms(1) by linarith
    with assms(2) have n: "n = 2 ^ 53" by simp
    have e: "int b - 53 = 1"
      using b54 bpos by linarith
    have q: "pow2 (int b - 53) = 2"
      by (simp add: pow2_def e)
    have x: "rat_of_int n / 2 = of_int (2 ^ 52)"
      using n by simp
    have r: "round_half_even (rat_of_int n / 2) = 2 ^ 52"
      unfolding x by (rule round_half_even_of_int)
    have dbl: "rat_of_int (2 ^ 52) * 2 = rat_of_int n"
      using n by simp
    have pos: "0 < rat_of_int n" "rat_of_int n \<noteq> 0"
      using assms(1) by simp_all
    show ?thesis
      unfolding round53_def Let_def
      using pos dbl by (simp only: il q r abs_of_pos sgn_pos if_False mult_1 diff_diff_eq)
        (simp add: il q r round_half_even_def Let_def)
  qed
qed

lemma rate_small:
  assumes "0 \<le> c" and "c \<le> 2 ^ 53"
  shows "rate c = Inr (round53 (of_int c / 5))"
proof (cases "c = 0")
  case True
  then show ?thesis by (simp add: rate_def float_of_int_def round53_def)
next
  case False
  with assms have "round53 (of_int c) = of_int c"
    by (intro round53_of_int) simp_all
  moreover have "\<not> 2 ^ 1024 - 2 ^ 970 \<le> \<bar>c\<bar>"
    using assms by simp
  ultimately show ?thesis
    by (simp add: rate_def float_of_int_def)
qed

section \<open>The decoder agrees with the big-endian reading\<close>

lemma take4_drop:
  assumes "i + 4 \<le> length xs"
  shows "take 4 (drop i xs) = [xs ! i, xs ! (i + 1), xs ! (i + 2), xs ! (i + 3)]"
proof (rule nth_equalityI)
  show "length (take 4 (drop i xs)) = length [xs ! i, xs ! (i + 1), xs ! (i + 2), xs ! (i + 3)]"
    using assms by simp
next
  fix k assume "k < length (take 4 (drop i xs))"
  then have "k < 4" by simp
  then consider "k = 0" | "k = 1" | "k = 2" | "k = 3" by linarith
  then show "take 4 (drop i xs) ! k = [xs ! i, xs ! (i + 1), xs ! (i + 2), xs ! (i + 3)] ! k"
    using assms by cases (simp_all add: numeral_eq_Suc)
qed

lemma unpack_L_slice:
  assumes "i + 4 \<le> length data"
  shows "unpack_L (slice data i (i + 4)) = Inr (be_uint32 data i)"
proof -
  have "slice data i (i + 4) = [data ! i, data ! (i + 1), data ! (i + 2), data ! (i + 3)]"
    using take4_drop [OF assms] by (simp add: slice_def)
  then show ?thesis
    by (simp add: unpack_L_def be_uint32_def)
qed

lemma be_uint32_range: "0 \<le> be_uint32 data i \<and> be_uint32 data i < 2 ^ 32"
proof -
  have b: "0 \<le> uint x \<and> uint x \<le> 255" for x :: byte
    using uint_bounded [of x] by simp
  show ?thesis
    unfolding be_uint32_def
    using b [of "data ! i"] b [of "data ! (i + 1)"] b [of "data ! (i + 2)"]
      b [of "data ! (i + 3)"]
    by simp
qed

lemma update_values_short:
  assumes "4 \<le> length data" and "length data < 8"
  shows "update_values self data =
    (None, self\<lparr>bamp := be_uint32 data 0, samples_in := samples_in self + 1\<rparr>)"
proof -
  have "unpack_L (slice data 0 4) = Inr (be_uint32 data 0)"
    using unpack_L_slice [of 0 data] assms by simp
  then show ?thesis
    using assms by (simp add: update_values_def)
qed

lemma update_values_long:
  assumes "8 \<le> length data"
  shows "update_values self data =
    (None, self\<lparr>bamp := be_uint32 data 0, bIR := be_uint32 data 4,
                  samples_in := samples_in self + 1\<rparr>)"
proof -
  have "unpack_L (slice data 0 4) = Inr (be_uint32 data 0)"
    using unpack_L_slice [of 0 data] assms by simp
  moreover have "unpack_L (slice data 4 8) = Inr (be_uint32 data 4)"
    using unpack_L_slice [of 4 data] assms by simp
  ultimately show ?thesis
    using assms by (simp add: update_values_def)
qed

text \<open>Whatever happens after line 52, the object the handler leaves is the updated one.\<close>

lemma object_ble_handler:
  assumes "4 \<le> length data"
  shows "object (ble_handler g self data w) = snd (update_values self data)"
  using assms
  by (simp add: ble_handler_def split: prod.splits option.splits)

section \<open>What the handler does to the object\<close>

lemma ble_handler_undersized:
  "length data < 4 \<Longrightarrow> ble_handler g self data w = (None, self, w)"
  by (simp add: ble_handler_def)

lemma update_values_decoded:
  assumes "4 \<le> length data"
  shows "update_values self data =
    (None, self\<lparr>bamp := be_uint32 data 0,
                  bIR := (if 8 \<le> length data then be_uint32 data 4 else bIR self),
                  samples_in := samples_in self + 1\<rparr>)"
proof (cases "8 \<le> length data")
  case True
  then show ?thesis by (simp add: update_values_long)
next
  case False
  with assms show ?thesis by (simp add: update_values_short)
qed

lemma ble_handler_decoded:
  assumes "4 \<le> length data"
  shows "ble_handler g self data w =
    (let self' = self\<lparr>bamp := be_uint32 data 0,
                  bIR := (if 8 \<le> length data then be_uint32 data 4 else bIR self),
                  samples_in := samples_in self + 1\<rparr>
     in case g of
          None \<Rightarrow> (Some (NameError ''args''), self', w)
        | Some a \<Rightarrow>
            let w1 = (if verbose a
                      then py_print (Sample_line (bamp self') (bIR self')) w else w)
            in (case callback self' of
                  None \<Rightarrow> (None, self', w1)
                | Some cb \<Rightarrow> (fst (cb (sample self') w1), self', snd (cb (sample self') w1))))"
  using assms
  by (simp add: ble_handler_def update_values_decoded Let_def split: option.splits prod.splits)

lemma object_decoded:
  assumes "4 \<le> length data"
  shows "object (ble_handler g self data w) =
    self\<lparr>bamp := be_uint32 data 0,
         bIR := (if 8 \<le> length data then be_uint32 data 4 else bIR self),
         samples_in := samples_in self + 1\<rparr>"
  using assms by (simp add: object_ble_handler update_values_decoded)

lemma bIR_object:
  "bIR (object (ble_handler g self data w)) =
     (if 8 \<le> length data then be_uint32 data 4 else bIR self)"
proof (cases "4 \<le> length data")
  case True
  then show ?thesis by (simp add: object_decoded)
next
  case False
  then show ?thesis by (simp add: ble_handler_undersized)
qed

lemma callback_object:
  "callback (object (ble_handler g self data w)) = callback self"
proof (cases "4 \<le> length data")
  case True
  then show ?thesis by (simp add: object_decoded)
next
  case False
  then show ?thesis by (simp add: ble_handler_undersized)
qed


lemma last_secondary_Nil: "last_secondary s0 [] = s0"
  by (simp add: last_secondary_def)

lemma last_secondary_Cons:
  "last_secondary s0 (d # ds) =
     last_secondary (if 8 \<le> length d then be_uint32 d 4 else s0) ds"
  by (simp add: last_secondary_def Let_def)

lemma loop_bIR:
  "fst (loop g evs self w) = Running \<Longrightarrow>
   bIR (object (loop g evs self w)) = last_secondary (bIR self) (payloads evs)"
proof (induction evs arbitrary: self w)
  case Nil
  then show ?case by (simp add: last_secondary_Nil)
next
  case (Cons ev evs)
  show ?case
  proof (cases ev)
    case (Notification data)
    obtain r self1 w1 where h: "ble_handler g self data w = (r, self1, w1)"
      by (cases "ble_handler g self data w") auto
    have b: "bIR self1 = (if 8 \<le> length data then be_uint32 data 4 else bIR self)"
      using bIR_object [of g self data w] h by simp
    show ?thesis
    proof (cases r)
      case None
      with Cons.prems Notification h have "fst (loop g evs self1 w1) = Running" by simp
      from Cons.IH [OF this] show ?thesis
        using Notification h None b by (simp add: last_secondary_Cons)
    next
      case (Some e)
      show ?thesis
      proof (cases "is_Exception e")
        case True
        with Cons.prems Notification h Some
        have "fst (loop g evs self1 (w1\<lparr>unhandled := unhandled w1 @ [e]\<rparr>)) = Running"
          by simp
        from Cons.IH [OF this] show ?thesis
          using Notification h Some True b by (simp add: last_secondary_Cons)
      next
        case False
        with Cons.prems Notification h Some show ?thesis by simp
      qed
    qed
  next
    case Tick
    show ?thesis
    proof (cases "rate (samples_in self)")
      case (Inl e)
      with Cons.prems Tick show ?thesis by (simp add: tick_def)
    next
      case (Inr r)
      with Cons.prems Tick
      have "fst (loop g evs (self\<lparr>samples_in := 0\<rparr>) (py_print (Rate_line r) w)) = Running"
        by (simp add: tick_def)
      from Cons.IH [OF this] show ?thesis
        using Tick Inr by (simp add: tick_def)
    qed
  next
    case (Signal sg)
    with Cons.prems show ?thesis by simp
  qed
qed

lemma handler_without_callback:
  assumes "4 \<le> length data" and "callback self = None"
  shows "ble_handler (Some a) self data w =
    (let self' = self\<lparr>bamp := be_uint32 data 0,
                  bIR := (if 8 \<le> length data then be_uint32 data 4 else bIR self),
                  samples_in := samples_in self + 1\<rparr>
     in (None, self',
         if verbose a then py_print (Sample_line (bamp self') (bIR self')) w else w))"
  using assms by (simp add: ble_handler_decoded Let_def)

section \<open>What the session does to the world\<close>

lemma py_print_frame [simp]:
  "calls (py_print l w) = calls w" "created (py_print l w) = created w"
  "pushed (py_print l w) = pushed w"
  by (simp_all add: py_print_def)

lemma client_call_frame [simp]:
  "calls (client_call c w) = calls w @ [c]" "created (client_call c w) = created w"
  "pushed (client_call c w) = pushed w"
  by (simp_all add: client_call_def)

lemma except_Exception_frame [simp]:
  "calls (snd (except_Exception e w)) = calls w"
  "created (snd (except_Exception e w)) = created w"
  "pushed (snd (except_Exception e w)) = pushed w"
  by (simp_all add: except_Exception_def)

lemma handler_stream:
  assumes "callback self = Some (stream ext)"
  shows "calls (world_of (ble_handler g self data w)) = calls w"
    and "created (world_of (ble_handler g self data w)) = created w"
proof -
  show "calls (world_of (ble_handler g self data w)) = calls w"
  proof (cases "4 \<le> length data")
    case True
    then show ?thesis
      using assms by (simp add: ble_handler_decoded Let_def stream_def split: option.splits)
  next
    case False
    then show ?thesis by (simp add: ble_handler_undersized)
  qed
  show "created (world_of (ble_handler g self data w)) = created w"
  proof (cases "4 \<le> length data")
    case True
    then show ?thesis
      using assms by (simp add: ble_handler_decoded Let_def stream_def split: option.splits)
  next
    case False
    then show ?thesis by (simp add: ble_handler_undersized)
  qed
qed

lemma handler_stream_pushed:
  assumes "callback self = Some (stream ext)" and "4 \<le> length data"
  shows "pushed (world_of (ble_handler (Some a) self data w))
    = pushed w @ [sample (object (ble_handler (Some a) self data w))]"
  using assms by (simp add: ble_handler_decoded Let_def stream_def)

lemma loop_stream:
  assumes "callback self = Some (stream ext)"
  shows "calls (world_of (loop g evs self w)) = calls w
    \<and> created (world_of (loop g evs self w)) = created w"
  using assms
proof (induction evs arbitrary: self w)
  case Nil
  then show ?case by simp
next
  case (Cons ev evs)
  show ?case
  proof (cases ev)
    case (Notification data)
    obtain r self1 w1 where h: "ble_handler g self data w = (r, self1, w1)"
      by (cases "ble_handler g self data w") auto
    have cb: "callback self1 = Some (stream ext)"
      using callback_object [of g self data w] h Cons.prems by simp
    have fr: "calls w1 = calls w" "created w1 = created w"
      using handler_stream [OF Cons.prems, of g data w] h by simp_all
    show ?thesis
    proof (cases r)
      case None
      then show ?thesis
        using Notification h fr Cons.IH [OF cb, of w1] by simp
    next
      case (Some e)
      then show ?thesis
        using Notification h fr
          Cons.IH [OF cb, of "w1\<lparr>unhandled := unhandled w1 @ [e]\<rparr>"]
        by simp
    qed
  next
    case Tick
    show ?thesis
    proof (cases "rate (samples_in self)")
      case (Inl e)
      with Tick show ?thesis by (simp add: tick_def)
    next
      case (Inr r)
      have "callback (self\<lparr>samples_in := 0\<rparr>) = Some (stream ext)"
        using Cons.prems by simp
      from Cons.IH [OF this] show ?thesis
        using Tick Inr by (simp add: tick_def)
    qed
  next
    case (Signal sg)
    then show ?thesis by simp
  qed
qed

lemma loop_signal:
  "Signal sg \<in> set evs \<Longrightarrow> fst (loop g evs self w) \<noteq> Running"
proof (induction evs arbitrary: self w)
  case Nil
  then show ?case by simp
next
  case (Cons ev evs)
  show ?case
  proof (cases ev)
    case (Notification data)
    with Cons.prems have "Signal sg \<in> set evs" by simp
    then show ?thesis
      using Notification Cons.IH by (simp split: prod.splits option.splits)
  next
    case Tick
    with Cons.prems have "Signal sg \<in> set evs" by simp
    then show ?thesis
      using Tick Cons.IH by (simp add: tick_def split: sum.splits)
  next
    case (Signal sg')
    then show ?thesis by simp
  qed
qed

lemma connect_frame:
  "created (snd (connect ext self w)) = created w"
  "filter is_Stop_notify (calls (snd (connect ext self w))) = filter is_Stop_notify (calls w)"
  "count_list (calls (snd (connect ext self w))) Disconnect = count_list (calls w) Disconnect"
  "pushed (snd (connect ext self w)) = pushed w"
  by (simp_all add: connect_def Let_def split: option.splits)

lemma terminate_calls:
  "calls (snd (terminate ext bb w)) =
     calls w @ Stop_notify (char_id bb) #
       (if stop_notify_outcome ext = None then [Disconnect] else [])"
  by (cases "stop_notify_outcome ext"; cases "disconnect_outcome ext")
    (simp_all add: terminate_def priv_terminate_def Let_def)

lemma terminate_created:
  "created (snd (terminate ext bb w)) = created w"
  by (cases "stop_notify_outcome ext"; cases "disconnect_outcome ext")
    (simp_all add: terminate_def priv_terminate_def Let_def)

lemma finally_block_calls:
  "calls (snd (finally_block ext bb pending w)) =
     calls w @ Stop_notify (char_id bb) #
       (if stop_notify_outcome ext = None then [Disconnect] else [])"
  using terminate_calls [of ext bb w]
  by (cases "terminate ext bb w"; cases "fst (terminate ext bb w)"; cases pending)
    (simp_all add: finally_block_def Let_def)

lemma finally_block_created:
  "created (snd (finally_block ext bb pending w)) = created w"
  using terminate_created [of ext bb w]
  by (cases "terminate ext bb w"; cases "fst (terminate ext bb w)"; cases pending)
    (simp_all add: finally_block_def Let_def)

lemma priv_main_world:
  "world_of (priv_main ext g evs self w) =
     (let w1 = snd (connect ext self w) in
      case fst (connect ext self w) of
        Some e \<Rightarrow> w1
      | None \<Rightarrow>
          let w3 = client_call (Start_notify (char_id self)) (py_print (Text ''start notify'') w1)
          in (case start_notify_outcome ext of
                Some e \<Rightarrow> snd (except_Exception e w3)
              | None \<Rightarrow>
                  let r = loop g evs self
                        (py_print (Text ''launch the loop'') (py_print (Text ''notify started'') w3))
                  in (case fst r of
                        Raised e \<Rightarrow> snd (except_Exception e (world_of r))
                      | _ \<Rightarrow> world_of r)))"
  by (simp add: priv_main_def Let_def case_prod_beta
      split: option.splits prod.splits status.splits)

lemma priv_main_status:
  "fst (priv_main ext g evs self w) = Running \<Longrightarrow>
     fst (loop g evs self (py_print (Text ''launch the loop'') (py_print (Text ''notify started'')
        (client_call (Start_notify (char_id self))
           (py_print (Text ''start notify'') (snd (connect ext self w))))))) = Running"
  by (simp add: priv_main_def Let_def case_prod_beta
      split: option.splits prod.splits status.splits if_splits)

lemma launch_frame:
  assumes "callback self = Some (stream ext')"
  shows "created (world_of (launch ext g evs self w)) = created w"
    and "filter is_Stop_notify (calls (world_of (launch ext g evs self w)))
          = filter is_Stop_notify (calls w)"
    and "count_list (calls (world_of (launch ext g evs self w))) Disconnect
          = count_list (calls w) Disconnect"
proof -
  define w1 where "w1 = snd (connect ext self w)"
  define w3 where
    "w3 = client_call (Start_notify (char_id self)) (py_print (Text ''start notify'') w1)"
  define w5 where
    "w5 = py_print (Text ''launch the loop'') (py_print (Text ''notify started'') w3)"
  define r where "r = loop g evs self w5"
  have f1: "created w1 = created w"
    "filter is_Stop_notify (calls w1) = filter is_Stop_notify (calls w)"
    "count_list (calls w1) Disconnect = count_list (calls w) Disconnect"
    using connect_frame [of ext self w] by (simp_all add: w1_def)
  have f3: "created w3 = created w"
    "filter is_Stop_notify (calls w3) = filter is_Stop_notify (calls w)"
    "count_list (calls w3) Disconnect = count_list (calls w) Disconnect"
    using f1 by (simp_all add: w3_def)
  have fr: "created (world_of r) = created w"
    "filter is_Stop_notify (calls (world_of r)) = filter is_Stop_notify (calls w)"
    "count_list (calls (world_of r)) Disconnect = count_list (calls w) Disconnect"
    using loop_stream [OF assms, of g evs w5] f3 by (simp_all add: r_def w5_def)
  have eq: "world_of (launch ext g evs self w) =
     (case fst (connect ext self w) of
        Some e \<Rightarrow> w1
      | None \<Rightarrow>
          (case start_notify_outcome ext of
             Some e \<Rightarrow> snd (except_Exception e w3)
           | None \<Rightarrow>
               (case fst r of
                  Raised e \<Rightarrow> snd (except_Exception e (world_of r))
                | _ \<Rightarrow> world_of r)))"
    by (simp add: launch_def priv_main_world Let_def w1_def w3_def w5_def r_def
        split: option.splits status.splits)
  show "created (world_of (launch ext g evs self w)) = created w"
    unfolding eq using f1 f3 fr by (simp split: option.splits status.splits)
  show "filter is_Stop_notify (calls (world_of (launch ext g evs self w)))
          = filter is_Stop_notify (calls w)"
    unfolding eq using f1 f3 fr by (simp split: option.splits status.splits)
  show "count_list (calls (world_of (launch ext g evs self w))) Disconnect
          = count_list (calls w) Disconnect"
    unfolding eq using f1 f3 fr by (simp split: option.splits status.splits)
qed

lemma launch_signal:
  assumes "Signal sg \<in> set evs"
  shows "fst (launch ext g evs self w) \<noteq> Running"
  using loop_signal [OF assms] priv_main_status [of ext g evs self w]
  by (auto simp: launch_def)

text \<open>The world the script leaves, in terms of the world \<open>launch\<close> leaves.\<close>

lemma script_world:
  assumes "fst (script a ext evs) \<noteq> Running"
  shows "\<exists>bb p w2.
    created w2 = [info_bamp a]
    \<and> filter is_Stop_notify (calls w2) = []
    \<and> count_list (calls w2) Disconnect = 0
    \<and> script a ext evs = finally_block ext bb p w2"
proof -
  define bb0 where
    "bb0 = init (mac_address a) ''0000fed1-0000-1000-8000-00805f9b34fb'' (verbose a)
             (Some (stream ext))"
  define w1 where "w1 = world0\<lparr>created := created world0 @ [info_bamp a]\<rparr>"
  obtain st bb w2 where l: "launch ext (Some a) evs bb0 w1 = (st, bb, w2)"
    by (cases "launch ext (Some a) evs bb0 w1") auto
  have cb: "callback bb0 = Some (stream ext)"
    by (simp add: bb0_def init_def)
  have f: "created w2 = [info_bamp a]" "filter is_Stop_notify (calls w2) = []"
    "count_list (calls w2) Disconnect = 0"
    using launch_frame [OF cb, of ext "Some a" evs w1] l
    by (simp_all add: w1_def world0_def)
  show ?thesis
  proof (cases st)
    case Running
    with l assms show ?thesis
      by (simp add: script_def Let_def bb0_def w1_def)
  next
    case Returned
    with l have "script a ext evs = finally_block ext bb None w2"
      by (simp add: script_def Let_def bb0_def w1_def)
    with f show ?thesis by blast
  next
    case (Raised e)
    show ?thesis
    proof (cases "e = KeyboardInterrupt")
      case True
      with l Raised have "script a ext evs = finally_block ext bb None
          (py_print (Text ''Catching Ctrl-C or SIGTERM, bye!'') w2)"
        by (simp add: script_def Let_def bb0_def w1_def)
      moreover have "created (py_print (Text ''Catching Ctrl-C or SIGTERM, bye!'') w2)
          = [info_bamp a]"
        "filter is_Stop_notify (calls (py_print (Text ''Catching Ctrl-C or SIGTERM, bye!'') w2))
          = []"
        "count_list (calls (py_print (Text ''Catching Ctrl-C or SIGTERM, bye!'') w2)) Disconnect
          = 0"
        using f by simp_all
      ultimately show ?thesis by blast
    next
      case False
      with l Raised have "script a ext evs = finally_block ext bb (Some e) w2"
        by (simp add: script_def Let_def bb0_def w1_def)
      with f show ?thesis by blast
    qed
  qed
qed

lemma finally_block_not_Running:
  "fst (finally_block ext bb p w) \<noteq> Running"
  by (cases "terminate ext bb w"; cases "fst (terminate ext bb w)"; cases p)
    (simp_all add: finally_block_def Let_def)

lemma script_signal:
  assumes "Signal sg \<in> set evs"
  shows "fst (script a ext evs) \<noteq> Running"
proof -
  define bb0 where
    "bb0 = init (mac_address a) ''0000fed1-0000-1000-8000-00805f9b34fb'' (verbose a)
             (Some (stream ext))"
  define w1 where "w1 = world0\<lparr>created := created world0 @ [info_bamp a]\<rparr>"
  obtain st bb w2 where l: "launch ext (Some a) evs bb0 w1 = (st, bb, w2)"
    by (cases "launch ext (Some a) evs bb0 w1") auto
  have "st \<noteq> Running"
    using launch_signal [OF assms, of ext "Some a" bb0 w1] l by simp
  then show ?thesis
    using l finally_block_not_Running
    by (cases st) (simp_all add: script_def Let_def bb0_def w1_def)
qed

lemma script_created:
  "created (snd (script a ext evs)) = [info_bamp a]"
proof (cases "fst (script a ext evs) = Running")
  case False
  from script_world [OF this] obtain bb p w2 where
    "created w2 = [info_bamp a]" "script a ext evs = finally_block ext bb p w2"
    by blast
  then show ?thesis by (simp add: finally_block_created)
next
  case True
  define bb0 where
    "bb0 = init (mac_address a) ''0000fed1-0000-1000-8000-00805f9b34fb'' (verbose a)
             (Some (stream ext))"
  define w1 where "w1 = world0\<lparr>created := created world0 @ [info_bamp a]\<rparr>"
  have cb: "callback bb0 = Some (stream ext)"
    by (simp add: bb0_def init_def)
  have c: "created (world_of (launch ext (Some a) evs bb0 w1)) = [info_bamp a]"
    using launch_frame(1) [OF cb, of ext "Some a" evs w1] by (simp add: w1_def world0_def)
  note nr = finally_block_not_Running
  obtain st bb w2 where l: "launch ext (Some a) evs bb0 w1 = (st, bb, w2)"
    by (cases "launch ext (Some a) evs bb0 w1") auto
  have "st = Running"
    using True l nr by (cases st) (auto simp: script_def Let_def bb0_def w1_def split: if_splits)
  then have "snd (script a ext evs) = w2"
    using l by (simp add: script_def Let_def bb0_def w1_def)
  then show ?thesis using c l by simp
qed

lemma handler_stream_pushed_any:
  assumes "callback self = Some (stream ext)"
  shows "pushed (world_of (ble_handler (Some a) self data w))
    = (if 4 \<le> length data
       then pushed w @ [sample (object (ble_handler (Some a) self data w))] else pushed w)"
  using assms handler_stream_pushed [of self ext data a w]
  by (simp add: ble_handler_undersized)

lemma length_expected_samples:
  "length (expected_samples s ds) = length (filter (\<lambda>d. 4 \<le> length d) ds)"
  by (induction ds arbitrary: s) simp_all

lemma expected_samples_arity:
  "x \<in> set (expected_samples s ds) \<Longrightarrow> length x = 2"
  by (induction ds arbitrary: s) (auto split: if_splits)

lemma loop_pushed_samples:
  assumes "callback self = Some (stream ext)"
    and "fst (loop (Some a) evs self w) = Running"
  shows "pushed (world_of (loop (Some a) evs self w))
    = pushed w @ expected_samples (bIR self) (payloads evs)"
  using assms
proof (induction evs arbitrary: self w)
  case Nil
  then show ?case by simp
next
  case (Cons ev evs)
  show ?case
  proof (cases ev)
    case (Notification data)
    obtain r self1 w1 where h: "ble_handler (Some a) self data w = (r, self1, w1)"
      by (cases "ble_handler (Some a) self data w") auto
    have cb: "callback self1 = Some (stream ext)"
      using callback_object [of "Some a" self data w] h Cons.prems(1) by simp
    have b: "bIR self1 = (if 8 \<le> length data then be_uint32 data 4 else bIR self)"
      using bIR_object [of "Some a" self data w] h by simp
    have s: "4 \<le> length data \<Longrightarrow> sample self1
        = [be_uint32 data 0, if 8 \<le> length data then be_uint32 data 4 else bIR self]"
      using object_decoded [of data "Some a" self w] h by (simp add: sample_def)
    have p: "pushed w1 = (if 4 \<le> length data then pushed w @ [sample self1] else pushed w)"
      using handler_stream_pushed_any [OF Cons.prems(1), of a data w] h by simp
    have step: "pushed w1 @ expected_samples (bIR self1) (payloads evs)
        = pushed w @ expected_samples (bIR self) (payloads (ev # evs))"
      using Notification p b s by simp
    show ?thesis
    proof (cases r)
      case None
      with Cons.prems(2) Notification h have "fst (loop (Some a) evs self1 w1) = Running"
        by simp
      from Cons.IH [OF cb this] show ?thesis
        using Notification h None step by simp
    next
      case (Some e)
      show ?thesis
      proof (cases "is_Exception e")
        case True
        with Cons.prems(2) Notification h Some
        have "fst (loop (Some a) evs self1 (w1\<lparr>unhandled := unhandled w1 @ [e]\<rparr>)) = Running"
          by simp
        from Cons.IH [OF cb this] show ?thesis
          using Notification h Some True step by simp
      next
        case False
        with Cons.prems(2) Notification h Some show ?thesis by simp
      qed
    qed
  next
    case Tick
    show ?thesis
    proof (cases "rate (samples_in self)")
      case (Inl e)
      with Cons.prems(2) Tick show ?thesis by (simp add: tick_def)
    next
      case (Inr r)
      have cb: "callback (self\<lparr>samples_in := 0\<rparr>) = Some (stream ext)"
        using Cons.prems(1) by simp
      from Cons.prems(2) Tick Inr
      have "fst (loop (Some a) evs (self\<lparr>samples_in := 0\<rparr>) (py_print (Rate_line r) w))
          = Running"
        by (simp add: tick_def)
      from Cons.IH [OF cb this] show ?thesis
        using Tick Inr by (simp add: tick_def)
    qed
  next
    case (Signal sg)
    with Cons.prems(2) show ?thesis by simp
  qed
qed




lemma priv_main_running:
  assumes "fst (priv_main ext g evs self w) = Running"
  shows "priv_main ext g evs self w =
    loop g evs self (py_print (Text ''launch the loop'') (py_print (Text ''notify started'')
      (client_call (Start_notify (char_id self))
         (py_print (Text ''start notify'') (snd (connect ext self w))))))"
  using assms
  by (simp add: priv_main_def Let_def case_prod_beta prod_eq_iff
      split: option.splits prod.splits status.splits if_splits)

lemma script_running:
  assumes "fst (script a ext evs) = Running"
  shows "\<exists>w5. pushed w5 = [] \<and>
    fst (loop (Some a) evs (init (mac_address a) ''0000fed1-0000-1000-8000-00805f9b34fb''
           (verbose a) (Some (stream ext))) w5) = Running \<and>
    snd (script a ext evs) = world_of (loop (Some a) evs
       (init (mac_address a) ''0000fed1-0000-1000-8000-00805f9b34fb'' (verbose a)
          (Some (stream ext))) w5)"
proof -
  define bb0 where
    "bb0 = init (mac_address a) ''0000fed1-0000-1000-8000-00805f9b34fb'' (verbose a)
             (Some (stream ext))"
  define w1 where "w1 = world0\<lparr>created := created world0 @ [info_bamp a]\<rparr>"
  define w5 where "w5 = py_print (Text ''launch the loop'') (py_print (Text ''notify started'')
      (client_call (Start_notify (char_id bb0))
         (py_print (Text ''start notify'') (snd (connect ext bb0 w1)))))"
  obtain st bb w2 where l: "launch ext (Some a) evs bb0 w1 = (st, bb, w2)"
    by (cases "launch ext (Some a) evs bb0 w1") auto
  have st: "st = Running"
    using assms l finally_block_not_Running
    by (cases st) (auto simp: script_def Let_def bb0_def w1_def split: if_splits)
  then have sw: "snd (script a ext evs) = w2"
    using l by (simp add: script_def Let_def bb0_def w1_def)
  have "fst (priv_main ext (Some a) evs bb0 w1) = Running"
    using l st by (simp add: launch_def)
  from priv_main_running [OF this]
  have pm: "launch ext (Some a) evs bb0 w1 = loop (Some a) evs bb0 w5"
    by (simp add: launch_def w5_def)
  have lp: "loop (Some a) evs bb0 w5 = (Running, bb, w2)"
    using pm l st by simp
  have "pushed w5 = []"
    by (simp add: w5_def connect_frame w1_def world0_def)
  moreover have "fst (loop (Some a) evs bb0 w5) = Running"
    by (simp add: lp)
  moreover have "snd (script a ext evs) = world_of (loop (Some a) evs bb0 w5)"
    by (simp add: lp sw)
  ultimately show ?thesis
    unfolding bb0_def by blast
qed

lemma script_running_pushed:
  assumes "fst (script a ext evs) = Running"
  shows "pushed (snd (script a ext evs)) = expected_samples 0 (payloads evs)"
proof -
  from script_running [OF assms] obtain w5 where
    p: "pushed w5 = []"
    and r: "fst (loop (Some a) evs (init (mac_address a)
        ''0000fed1-0000-1000-8000-00805f9b34fb'' (verbose a) (Some (stream ext))) w5) = Running"
    and s: "snd (script a ext evs) = world_of (loop (Some a) evs
       (init (mac_address a) ''0000fed1-0000-1000-8000-00805f9b34fb'' (verbose a)
          (Some (stream ext))) w5)"
    by blast
  have cb: "callback (init (mac_address a) ''0000fed1-0000-1000-8000-00805f9b34fb''
      (verbose a) (Some (stream ext))) = Some (stream ext)"
    by (simp add: init_def)
  show ?thesis
    using loop_pushed_samples [OF cb r] p by (simp add: s init_def)
qed

text \<open>
  Once a signal is among the events of the wait loop the script runs its teardown:
  \<open>stop_notify\<close> is called exactly once, and \<open>disconnect\<close> exactly once when
  \<open>stop_notify\<close> returns and not at all when it raises.
\<close>

lemma teardown_after_signal:
  assumes "Signal sg \<in> set evs"
  shows "length (filter is_Stop_notify (calls (snd (script a ext evs)))) = 1
    \<and> count_list (calls (snd (script a ext evs))) Disconnect
        = (if stop_notify_outcome ext = None then 1 else 0)"
proof -
  from script_world [OF script_signal [OF assms]] obtain bb p w2 where
    f: "filter is_Stop_notify (calls w2) = []" "count_list (calls w2) Disconnect = 0"
    and s: "script a ext evs = finally_block ext bb p w2"
    by blast
  show ?thesis
    using f by (simp add: s finally_block_calls)
qed

text \<open>
  With \<open>args\<close> bound and a callback registered, handling a payload of at least 4
  bytes is one application of that callback to the list of the two values just stored.
\<close>

lemma callback_applied_once:
  assumes "4 \<le> length data" and "callback self = Some cb"
  shows "ble_handler (Some a) self data w =
    (let self' = self\<lparr>bamp := be_uint32 data 0,
                  bIR := (if 8 \<le> length data then be_uint32 data 4 else bIR self),
                  samples_in := samples_in self + 1\<rparr>;
         w1 = (if verbose a then py_print (Sample_line (bamp self') (bIR self')) w else w);
         r = cb [bamp self', bIR self'] w1
     in (fst r, self', snd r))"
  using assms by (simp add: ble_handler_decoded Let_def sample_def)

section \<open>Evaluation at concrete inputs\<close>

lemmas eval_handler = ble_handler_def update_values_def unpack_L_def slice_def sample_def
  py_print_def stream_def init_def world0_def be_uint32_def

section \<open>The claims\<close>

text \<open>
  Claim C1. Start from a fresh object (\<open>__init__\<close>: both stored values 0) and let
  the loop handle any events without leaving. A payload of 4 to 7 bytes handled next
  gives the sample whose primary is the big-endian unsigned 32-bit integer of
  \<open>bytes[0:4]\<close> and whose secondary is the one of the last earlier payload of at least
  8 bytes, or 0 if there was none.
\<close>

theorem secondary_persists:
  assumes "fst (loop g evs (init a c v cb) w) = Running"
    and "4 \<le> length data" and "length data < 8"
  shows "sample (object (ble_handler g (object (loop g evs (init a c v cb) w)) data
           (world_of (loop g evs (init a c v cb) w))))
         = [be_uint32 data 0, last_secondary 0 (payloads evs)]"
proof -
  have "bIR (object (loop g evs (init a c v cb) w)) = last_secondary 0 (payloads evs)"
    using loop_bIR [OF assms(1)] by (simp add: init_def)
  then show ?thesis
    using assms(2,3) by (simp add: object_decoded sample_def)
qed

text \<open>
  Scenario D: after \<open>00 00 00 01 00 00 00 02\<close>, the payload \<open>00 00 00 03\<close> gives
  \<open>[3, 2]\<close>.
\<close>

theorem secondary_persists_witness:
  "fst (loop (Some default_args) [Notification [0, 0, 0, 1, 0, 0, 0, 2]] script_bbelt world0)
     = Running
   \<and> 4 \<le> length [0, 0, 0, 3 :: byte] \<and> length [0, 0, 0, 3 :: byte] < 8
   \<and> sample (object (ble_handler (Some default_args)
        (object (loop (Some default_args) [Notification [0, 0, 0, 1, 0, 0, 0, 2]]
           script_bbelt world0))
        [0, 0, 0, 3]
        (world_of (loop (Some default_args) [Notification [0, 0, 0, 1, 0, 0, 0, 2]]
           script_bbelt world0)))) = [3, 2]"
proof -
  have run: "fst (loop (Some default_args) [Notification [0, 0, 0, 1, 0, 0, 0, 2]]
         (init ''FB:88:11:1E:90:F3'' ''0000fed1-0000-1000-8000-00805f9b34fb'' False
            (Some (stream ext_ok))) world0) = Running"
    by (simp add: eval_handler default_args_def ext_ok_def)
  have len: "4 \<le> length [0, 0, 0, 3 :: byte]" "length [0, 0, 0, 3 :: byte] < 8"
    by simp_all
  have "be_uint32 [0, 0, 0, 3] 0 = 3"
    by (simp add: be_uint32_def)
  moreover have "last_secondary 0 (payloads [Notification [0, 0, 0, 1, 0, 0, 0, 2]]) = 2"
    by (simp add: last_secondary_def be_uint32_def)
  ultimately show ?thesis
    using secondary_persists [OF run len] run by (simp add: script_bbelt_def)
qed

text \<open>
  Claim C2. A payload of at least 8 bytes gives the sample whose secondary is the
  big-endian unsigned 32-bit integer of \<open>bytes[4:8]\<close>, whatever secondary value the
  object held before.
\<close>

theorem secondary_overwritten:
  assumes "8 \<le> length data"
  shows "sample (object (ble_handler g self data w)) = [be_uint32 data 0, be_uint32 data 4]"
  using assms by (simp add: object_decoded sample_def)

text \<open>
  Scenario B: the payload \<open>00 00 00 05 00 00 00 07\<close> gives \<open>[5, 7]\<close>.
\<close>

theorem secondary_overwritten_witness:
  "8 \<le> length [0, 0, 0, 5, 0, 0, 0, 7 :: byte]
   \<and> sample (object (ble_handler (Some default_args) script_bbelt [0, 0, 0, 5, 0, 0, 0, 7]
        world0)) = [5, 7]"
  using secondary_overwritten [of "[0, 0, 0, 5, 0, 0, 0, 7]" "Some default_args" script_bbelt world0]
  by (simp add: be_uint32_def)

text \<open>
  Claim C3. A payload of fewer than 4 bytes leaves the object and the world as they
  were and raises nothing: no stored value or counter changes, nothing is printed, and
  no callback, whichever is registered, acts on the world.
\<close>

theorem undersized_payload_ignored:
  assumes "length data < 4"
  shows "ble_handler g self data w = (None, self, w)"
  using assms by (rule ble_handler_undersized)

text \<open>
  Scenario C: the two bytes \<open>01 02\<close>.
\<close>

theorem undersized_payload_ignored_witness:
  "length [1, 2 :: byte] < 4
   \<and> ble_handler (Some default_args) script_bbelt [1, 2] world0 = (None, script_bbelt, world0)"
  using undersized_payload_ignored [of "[1, 2]" "Some default_args" script_bbelt world0]
  by simp




text \<open>
  Claim C5 at a session that streams (one sample is pushed) and receives SIGINT, with a
  \<open>stop_notify\<close> that raises: \<open>_terminate\<close> is left before \<open>disconnect\<close> is reached,
  so \<open>stop_notify\<close> is called once and \<open>disconnect\<close> is never called.
\<close>

theorem disconnect_skipped_when_stop_notify_fails:
  "pushed (snd (script default_args ext_stop_fails
      [Notification [0, 0, 0, 5], Signal SIGINT])) = [[5, 0]]
   \<and> length (filter is_Stop_notify (calls (snd (script default_args ext_stop_fails
      [Notification [0, 0, 0, 5], Signal SIGINT])))) = 1
   \<and> count_list (calls (snd (script default_args ext_stop_fails
      [Notification [0, 0, 0, 5], Signal SIGINT]))) Disconnect = 0"
  by (simp add: script_def launch_def priv_main_def connect_def finally_block_def terminate_def
      priv_terminate_def except_Exception_def Let_def ext_stop_fails_def ext_ok_def
      default_args_def client_call_def eval_handler)

text \<open>
  Claim C6 at an object with a callback registered, outside the script, where the module
  global \<open>args\<close> is unbound: the payload is decoded and counted, then reading
  \<open>args.verbose\<close> raises \<open>NameError\<close> before line 58; the callback is not invoked
  (nothing is pushed).
\<close>

theorem callback_skipped_when_args_unbound:
  "ble_handler None script_bbelt [0, 0, 0, 5, 0, 0, 0, 7] world0 =
     (Some (NameError ''args''), script_bbelt\<lparr>bamp := 5, bIR := 7, samples_in := 1\<rparr>,
      world0)
   \<and> pushed (world_of (ble_handler None script_bbelt [0, 0, 0, 5, 0, 0, 0, 7] world0)) = []"
  by (simp add: eval_handler script_bbelt_def)

text \<open>
  Claim C7, as the specification states it, fails: the handler has no \<open>try\<close>
  statement, so an exception raised by the registered callback leaves the handler.
\<close>

theorem handler_propagates_callback_error:
  "raised (ble_handler (Some default_args) failing_bbelt [0, 0, 0, 5] world0)
     = Some (OtherError ''push failed'')"
  by (simp add: eval_handler failing_bbelt_def default_args_def ext_push_fails_def
      ext_ok_def)

text \<open>
  Claim C7, amended. An undersized buffer is dropped without an exception. For every
  other buffer the decoding of lines 47 to 52 raises nothing, and with \<open>args\<close> bound
  the only exception that can leave the handler is one raised by the registered
  callback: with no callback, or a callback that returns, the handler raises nothing.
\<close>

theorem handler_raises_only_from_callback:
  "(length data < 4 \<longrightarrow> raised (ble_handler g self data w) = None)
   \<and> (4 \<le> length data \<longrightarrow> fst (update_values self data) = None)
   \<and> (callback self = None \<longrightarrow> raised (ble_handler (Some a) self data w) = None)
   \<and> (\<forall>cb. callback self = Some cb \<and> 4 \<le> length data \<longrightarrow>
         raised (ble_handler (Some a) self data w)
           = fst (cb (sample (object (ble_handler (Some a) self data w)))
                    (if verbose a
                     then py_print (Sample_line (bamp (object (ble_handler (Some a) self data w)))
                            (bIR (object (ble_handler (Some a) self data w)))) w
                     else w)))"
proof (cases "4 \<le> length data")
  case True
  then show ?thesis
    by (simp add: ble_handler_decoded update_values_decoded Let_def split: option.splits)
next
  case False
  then show ?thesis
    by (simp add: ble_handler_undersized)
qed

text \<open>
  Two bytes, nine bytes with the callback of the script, four bytes with no callback.
\<close>

theorem handler_raises_only_from_callback_witness:
  "length [1, 2 :: byte] < 4
   \<and> raised (ble_handler (Some default_args) script_bbelt [1, 2] world0) = None
   \<and> 4 \<le> length [0, 0, 0, 5, 0, 0, 0, 7, 9 :: byte]
   \<and> fst (update_values script_bbelt [0, 0, 0, 5, 0, 0, 0, 7, 9]) = None
   \<and> callback script_bbelt = Some (stream ext_ok)
   \<and> raised (ble_handler (Some default_args) script_bbelt [0, 0, 0, 5, 0, 0, 0, 7, 9] world0)
       = None
   \<and> callback plain_bbelt = None
   \<and> raised (ble_handler (Some default_args) plain_bbelt [0, 0, 0, 5] world0) = None"
proof -
  have c: "callback script_bbelt = Some (stream ext_ok)"
    by (simp add: script_bbelt_def init_def)
  have n: "callback plain_bbelt = None"
    by (simp add: plain_bbelt_def init_def)
  show ?thesis
    using c n
      handler_raises_only_from_callback [of "[1, 2]" "Some default_args" script_bbelt world0
        default_args]
      handler_raises_only_from_callback [of "[0, 0, 0, 5, 0, 0, 0, 7, 9]" "Some default_args"
        script_bbelt world0 default_args]
      handler_raises_only_from_callback [of "[0, 0, 0, 5]" "Some default_args" plain_bbelt
        world0 default_args]
    by (simp add: stream_def ext_ok_def)
qed

text \<open>
  Claim C8. The script creates exactly one outlet, with the declaration of line 129:
  2 channels, 12 Hz, \<open>float32\<close>, and the identifier made of name, type and address
  joined by underscores. While the script runs, its \<open>push_sample\<close> calls are exactly the
  samples of the payloads of at least 4 bytes delivered so far, one call for each, in
  order, each with as many values as the outlet has channels. With the callback of the
  script, one handler call makes exactly one \<open>push_sample\<close> call for a payload of at
  least 4 bytes and none for a shorter one.
\<close>

theorem one_outlet_one_push:
  "created (snd (script a ext evs)) = [info_bamp a]
   \<and> info_bamp a = \<lparr>si_name = arg_name a, si_type = arg_type a, channel_count = 2,
        nominal_srate = 12, channel_format = ''float32'',
        source_id = arg_name a @ ''_'' @ arg_type a @ ''_'' @ mac_address a\<rparr>
   \<and> (fst (script a ext evs) = Running \<longrightarrow>
        pushed (snd (script a ext evs)) = expected_samples 0 (payloads evs)
        \<and> length (pushed (snd (script a ext evs)))
            = length (filter (\<lambda>d. 4 \<le> length d) (payloads evs))
        \<and> (\<forall>x \<in> set (pushed (snd (script a ext evs))).
              length x = channel_count (info_bamp a)))
   \<and> (callback self = Some (stream ext) \<and> 4 \<le> length data \<longrightarrow>
        pushed (world_of (ble_handler (Some a) self data w))
          = pushed w @ [sample (object (ble_handler (Some a) self data w))]
        \<and> length (sample (object (ble_handler (Some a) self data w)))
            = channel_count (info_bamp a))
   \<and> (callback self = Some (stream ext) \<and> length data < 4 \<longrightarrow>
        pushed (world_of (ble_handler (Some a) self data w)) = pushed w)"
proof -
  have A: "created (snd (script a ext evs)) = [info_bamp a]"
    by (rule script_created)
  have B: "info_bamp a = \<lparr>si_name = arg_name a, si_type = arg_type a, channel_count = 2,
        nominal_srate = 12, channel_format = ''float32'',
        source_id = arg_name a @ ''_'' @ arg_type a @ ''_'' @ mac_address a\<rparr>"
    by (simp add: info_bamp_def SAMPLINGRATE_def)
  have C: "fst (script a ext evs) = Running \<longrightarrow>
        pushed (snd (script a ext evs)) = expected_samples 0 (payloads evs)
        \<and> length (pushed (snd (script a ext evs)))
            = length (filter (\<lambda>d. 4 \<le> length d) (payloads evs))
        \<and> (\<forall>x \<in> set (pushed (snd (script a ext evs))).
              length x = channel_count (info_bamp a))"
    by (auto simp: script_running_pushed length_expected_samples info_bamp_def
        dest: expected_samples_arity)
  have D: "callback self = Some (stream ext) \<and> 4 \<le> length data \<longrightarrow>
        pushed (world_of (ble_handler (Some a) self data w))
          = pushed w @ [sample (object (ble_handler (Some a) self data w))]
        \<and> length (sample (object (ble_handler (Some a) self data w)))
            = channel_count (info_bamp a)"
    by (simp add: handler_stream_pushed info_bamp_def sample_def)
  have E: "callback self = Some (stream ext) \<and> length data < 4 \<longrightarrow>
        pushed (world_of (ble_handler (Some a) self data w)) = pushed w"
    by (simp add: ble_handler_undersized)
  show ?thesis
    by (rule conjI [OF A conjI [OF B conjI [OF C conjI [OF D E]]]])
qed

text \<open>
  The default arguments, and a run of the script with a payload of 8 bytes, one of 2
  bytes, a tick and a payload of 4 bytes: two samples are pushed.
\<close>

theorem one_outlet_one_push_witness:
  "created (snd (script default_args ext_ok
      [Notification [0, 0, 0, 5, 0, 0, 0, 7], Notification [1, 2], Tick,
       Notification [0, 0, 0, 3]]))
     = [\<lparr>si_name = ''ullo_bb'', si_type = ''breathing_amp'', channel_count = 2,
         nominal_srate = 12, channel_format = ''float32'',
         source_id = ''ullo_bb_breathing_amp_FB:88:11:1E:90:F3''\<rparr>]
   \<and> fst (script default_args ext_ok
      [Notification [0, 0, 0, 5, 0, 0, 0, 7], Notification [1, 2], Tick,
       Notification [0, 0, 0, 3]]) = Running
   \<and> pushed (snd (script default_args ext_ok
      [Notification [0, 0, 0, 5, 0, 0, 0, 7], Notification [1, 2], Tick,
       Notification [0, 0, 0, 3]])) = [[5, 7], [3, 7]]
   \<and> callback script_bbelt = Some (stream ext_ok)
   \<and> 4 \<le> length [0, 0, 0, 5, 0, 0, 0, 7 :: byte]
   \<and> pushed (world_of (ble_handler (Some default_args) script_bbelt [0, 0, 0, 5, 0, 0, 0, 7]
        world0)) = [[5, 7]]
   \<and> length [1, 2 :: byte] < 4
   \<and> pushed (world_of (ble_handler (Some default_args) script_bbelt [1, 2] world0)) = []"
proof -
  have c: "callback script_bbelt = Some (stream ext_ok)"
    by (simp add: script_bbelt_def init_def)
  have r1: "rate 1 = Inr (round53 (1 / 5))"
    using rate_small [of 1] by simp
  have run: "fst (script default_args ext_ok
      [Notification [0, 0, 0, 5, 0, 0, 0, 7], Notification [1, 2], Tick,
       Notification [0, 0, 0, 3]]) = Running"
    by (simp add: script_def launch_def priv_main_def connect_def Let_def tick_def r1
        client_call_def default_args_def ext_ok_def eval_handler)
  have e: "expected_samples 0 (payloads
      [Notification [0, 0, 0, 5, 0, 0, 0, 7], Notification [1, 2], Tick,
       Notification [0, 0, 0, 3]]) = [[5, 7], [3, 7]]"
    by (simp add: be_uint32_def)
  have s: "sample (object (ble_handler (Some default_args) script_bbelt [0, 0, 0, 5, 0, 0, 0, 7]
      world0)) = [5, 7]"
    by (simp add: object_decoded sample_def be_uint32_def)
  show ?thesis
    using c run e s
      one_outlet_one_push [of default_args ext_ok
        "[Notification [0, 0, 0, 5, 0, 0, 0, 7], Notification [1, 2], Tick,
          Notification [0, 0, 0, 3]]" script_bbelt "[0, 0, 0, 5, 0, 0, 0, 7]" world0]
      one_outlet_one_push [of default_args ext_ok "[]" script_bbelt "[1, 2]" world0]
    by (simp add: info_bamp_def default_args_def world0_def)
qed

text \<open>
  Claim C9, as the specification states it, fails: \<open>terminate\<close> catches
  \<open>Exception\<close> only. A \<open>KeyboardInterrupt\<close> raised while \<open>stop_notify\<close> is awaited
  (a second SIGINT or SIGTERM) leaves \<open>terminate\<close>.
\<close>

theorem terminate_propagates_interrupt:
  "fst (terminate ext_interrupted script_bbelt world0) = Some KeyboardInterrupt"
  by (simp add: terminate_def priv_terminate_def ext_interrupted_def ext_ok_def
      except_Exception_def Let_def)

text \<open>
  Claim C9, amended. When \<open>stop_notify\<close> and \<open>disconnect\<close> raise nothing but
  instances of \<open>Exception\<close>, \<open>terminate\<close> returns normally, the error raised is
  printed, and the \<open>finally\<close> block of the script runs to its end (the outlet is
  deleted).
\<close>

theorem terminate_swallows_errors:
  assumes "\<forall>e. stop_notify_outcome ext = Some e \<longrightarrow> is_Exception e"
    and "\<forall>e. disconnect_outcome ext = Some e \<longrightarrow> is_Exception e"
  shows "fst (terminate ext self w) = None
    \<and> (\<forall>e. fst (priv_terminate ext self w) = Some e \<longrightarrow>
          stdout (snd (terminate ext self w)) = stdout w @ [Exn_line e])
    \<and> fst (finally_block ext self None w) = Returned
    \<and> outlet_deleted (snd (finally_block ext self None w))"
  using assms
  by (auto simp: terminate_def priv_terminate_def except_Exception_def finally_block_def
      Let_def py_print_def client_call_def split: option.splits prod.splits)

text \<open>
  A failing \<open>stop_notify\<close>: the error is printed and the shutdown completes.
\<close>

theorem terminate_swallows_errors_witness:
  "stop_notify_outcome ext_stop_fails = Some (OtherError ''not connected'')
   \<and> is_Exception (OtherError ''not connected'')
   \<and> disconnect_outcome ext_stop_fails = None
   \<and> fst (terminate ext_stop_fails script_bbelt world0) = None
   \<and> fst (priv_terminate ext_stop_fails script_bbelt world0) = Some (OtherError ''not connected'')
   \<and> stdout (snd (terminate ext_stop_fails script_bbelt world0))
       = [Exn_line (OtherError ''not connected'')]
   \<and> fst (finally_block ext_stop_fails script_bbelt None world0) = Returned
   \<and> outlet_deleted (snd (finally_block ext_stop_fails script_bbelt None world0))"
proof -
  have s: "\<forall>e. stop_notify_outcome ext_stop_fails = Some e \<longrightarrow> is_Exception e"
    by (simp add: ext_stop_fails_def)
  have d: "\<forall>e. disconnect_outcome ext_stop_fails = Some e \<longrightarrow> is_Exception e"
    by (simp add: ext_stop_fails_def ext_ok_def)
  have p: "fst (priv_terminate ext_stop_fails script_bbelt world0)
      = Some (OtherError ''not connected'')"
    by (simp add: priv_terminate_def ext_stop_fails_def Let_def)
  have o: "stop_notify_outcome ext_stop_fails = Some (OtherError ''not connected'')"
    "disconnect_outcome ext_stop_fails = None"
    by (simp_all add: ext_stop_fails_def ext_ok_def)
  show ?thesis
    using o p terminate_swallows_errors [OF s d, of script_bbelt world0]
    by (simp add: world0_def)
qed

text \<open>
  Claim C10 at an object built with the default arguments of \<open>__init__\<close> outside
  the script, where the module global \<open>args\<close> is unbound: the stored primary and the
  counter are updated, then reading \<open>args.verbose\<close> raises \<open>NameError\<close>.
\<close>

theorem handler_without_callback_raises:
  "ble_handler None plain_bbelt [0, 0, 0, 5] world0 =
     (Some (NameError ''args''), plain_bbelt\<lparr>bamp := 5, samples_in := 1\<rparr>, world0)"
  by (simp add: eval_handler plain_bbelt_def)

end
